theory Spec2Isabelle
  imports Main
begin

section \<open>Values, results and errors\<close>

text \<open>
  A Go function that panics does not return: \<open>Panic\<close> stands for that, \<open>Return\<close> for a
  normal return. A Go pair \<open>(*Result, error)\<close> is a pair of options, \<open>None\<close> for \<open>nil\<close>.
\<close>

datatype 'a outcome = Return 'a | Panic

text \<open>
  An \<open>error\<close> value: \<open>ExitError\<close> is the dynamic type \<open>*exec.ExitError\<close> (the child ran
  and did not exit with status zero; it carries the exit code, -1 after a signal), every
  other error is \<open>OtherError\<close>. The string is what \<open>err.Error()\<close> returns.
\<close>

datatype error = ExitError int string | OtherError string

fun Error :: "error \<Rightarrow> string" where
  "Error (ExitError code msg) = msg"
| "Error (OtherError msg) = msg"

text \<open>
  The values held by scopes and results (Go's \<open>interface{}\<close>), as far as this code stores
  them: integers, strings, booleans and a \<open>*Result\<close>, which may be nil.
\<close>

datatype val = VInt int | VStr string | VBool bool | VResult "result option"
  and result = Result (Changed: bool) (Data: "(string \<times> val) list")

text \<open>
  Modelled from the spec: the type Result and its operations are not among the source
  files. A Result is an append-only key/value record that carries its changed status from
  creation; \<open>Add\<close> appends without looking for the key, \<open>Get\<close> returns the value and
  whether it was found, the latest entry of a key winning.
\<close>

definition NewResult :: "bool \<Rightarrow> result" where
  "NewResult changed = Result changed []"

definition Add :: "result \<Rightarrow> string \<Rightarrow> val \<Rightarrow> result" where
  "Add r k v = Result (Changed r) (Data r @ [(k, v)])"


section \<open>builtin.go: running a process\<close>

record CommandResult =
  ReturnCode :: int
  Stdout :: string
  Stderr :: string

text \<open>
  \<open>exec.Cmd\<close> as \<open>exec.Command\<close> builds it, and what the operating system does with it.
  The second record is the outside world's answer for one command: whether the two pipes
  could be made, the bytes the two reader goroutines of \<open>captureCmd\<close> have accumulated,
  and how the child ended.
\<close>

record Cmd =
  cmd_Path :: string
  cmd_Args :: "string list"
  cmd_Env :: "string list option"

datatype proc_end = Exited int | Signaled | NotStarted

record proc =
  StdoutPipe_err :: "error option"
  StderrPipe_err :: "error option"
  bout :: string
  berr :: string
  ended :: proc_end

text \<open>
  \<open>c.Wait()\<close> of Go's os/exec: nil after exit status zero, an \<open>*exec.ExitError\<close> after
  any other exit or a signal, and a plain error when the command was never started
  (\<open>captureCmd\<close> drops the error of \<open>c.Start()\<close>).
\<close>

fun Wait :: "proc_end \<Rightarrow> error option" where
  "Wait (Exited code) =
     (if code = 0 then None else Some (ExitError code ''exit status''))"
| "Wait Signaled = Some (ExitError (- 1) ''signal'')"
| "Wait NotStarted = Some (OtherError ''exec: not started'')"

definition captureCmd :: "proc \<Rightarrow> string option \<times> string option \<times> error option" where
  "captureCmd p =
     (case StdoutPipe_err p of
        Some err \<Rightarrow> (None, None, Some err)
      | None \<Rightarrow>
          (case StderrPipe_err p of
             Some err \<Rightarrow> (None, None, Some err)
           | None \<Rightarrow> (Some (bout p), Some (berr p), Wait (ended p))))"

fun bytes :: "string option \<Rightarrow> string" where
  "bytes None = []"
| "bytes (Some b) = b"

text \<open>
  \<open>RunCommand\<close> and \<open>RunCommandInEnv\<close>. \<open>parts[0]\<close> of an empty argument list panics.
  The parameter \<open>sys\<close> is the operating system. Printing the command line when
  ShowCommandOutput is set has no part in the result and is left out.
\<close>

definition RunCommand :: "(Cmd \<Rightarrow> proc) \<Rightarrow> string list \<Rightarrow> (error + CommandResult) outcome" where
  "RunCommand sys parts =
     (case parts of
        [] \<Rightarrow> Panic
      | p # ps \<Rightarrow>
          (case captureCmd (sys \<lparr>cmd_Path = p, cmd_Args = ps, cmd_Env = None\<rparr>) of
             (stdout, stderr, err) \<Rightarrow>
               (case err of
                  None \<Rightarrow>
                    Return (Inr \<lparr>ReturnCode = 0, Stdout = bytes stdout, Stderr = bytes stderr\<rparr>)
                | Some (ExitError code msg) \<Rightarrow>
                    Return (Inr \<lparr>ReturnCode = 1, Stdout = bytes stdout, Stderr = bytes stderr\<rparr>)
                | Some (OtherError msg) \<Rightarrow> Return (Inl (OtherError msg)))))"

definition RunCommandInEnv ::
  "(Cmd \<Rightarrow> proc) \<Rightarrow> string list \<Rightarrow> string list \<Rightarrow> (error + CommandResult) outcome" where
  "RunCommandInEnv sys unixEnv parts =
     (case parts of
        [] \<Rightarrow> Panic
      | p # ps \<Rightarrow>
          (case captureCmd (sys \<lparr>cmd_Path = p, cmd_Args = ps, cmd_Env = Some unixEnv\<rparr>) of
             (stdout, stderr, err) \<Rightarrow>
               (case err of
                  None \<Rightarrow>
                    Return (Inr \<lparr>ReturnCode = 0, Stdout = bytes stdout, Stderr = bytes stderr\<rparr>)
                | Some (ExitError code msg) \<Rightarrow>
                    Return (Inr \<lparr>ReturnCode = 1, Stdout = bytes stdout, Stderr = bytes stderr\<rparr>)
                | Some (OtherError msg) \<Rightarrow> Return (Inl (OtherError msg)))))"

section \<open>builtin.go: the compact summary of a process result\<close>












section \<open>runner.go: tasks, plays, scopes\<close>

text \<open>
  The types Task, Play and Module are declared outside the two source files; the records
  hold what the runner reads from them. \<open>Items\<close> is a Go slice that may be nil, \<open>IncludeVars\<close>
  a map that may be nil.
\<close>

type_synonym Vars = "string \<rightharpoonup> val"

record Task =
  Name :: string
  Command :: string
  Args :: string
  When :: string
  Items :: "val list option"
  Register :: string
  Notify :: "string list"
  Async :: bool
  Future :: string
  IncludeVars :: "Vars option"

record Module =
  ModTasks :: "Task list"

record Play =
  Vars :: Vars
  Tasks :: "Task list"
  Handlers :: "Task list"
  Modules :: "string \<rightharpoonup> Module"

text \<open>
  A value of the interface Scope: a pointer to a NestedScope or to a FutureScope, or a
  \<open>PriorityScope\<close> (a task's overlay in front of another scope). Pointers are addresses
  into the heap below.
\<close>

type_synonym addr = nat

datatype scope = NestedRef addr | FutureRef addr | PriorityScope "Vars option" scope

text \<open>
  A Command is a builtin made by \<open>MakeCommand\<close> (of type \<open>'c\<close>, outside these files) or a
  \<open>ModuleRun\<close> with its fields Play, Task, Module, Scope and FutureScope (a pointer that
  may be nil). The field Runner is the one runner of the state.
\<close>

datatype 'c command =
    Builtin 'c
  | ModuleRun Play Task Module scope "addr option"

text \<open>
  \<open>NewFuture(start, task, func)\<close>, the function being \<open>cmd.Run(ce, str)\<close>: the future holds
  the start time, the task, the command and its argument text.
\<close>

datatype 'c future = NewFuture int Task "'c command" string

text \<open>
  The heap of scope objects. A NestedScope has a parent and a local frame; a FutureScope has
  a frame and a registry of futures by name. \<open>next_addr\<close> is the next unused address.
\<close>

record 'c heap =
  nested :: "addr \<rightharpoonup> scope \<times> Vars"
  fscopes :: "addr \<rightharpoonup> Vars \<times> (string \<rightharpoonup> 'c future)"
  next_addr :: addr

text \<open>
  Modelled from the spec: the scope constructors and methods are not among the source
  files. A child scope is created with an empty local frame in front of its parent; a
  FutureScope is seeded with the play's variables and has no futures yet; \<open>Set\<close> always
  writes the local frame of the scope it is called on; \<open>AddFuture\<close> enters a future in the
  registry under its name. Both write to what their receiver points to, so a call through
  a nil \<open>*FutureScope\<close> panics, as a nil dereference does in Go. The runner reads no
  variable itself: scopes are read by the template expansion, which is outside these files
  and is given the heap and the scope.
\<close>

definition NewNestedScope :: "scope \<Rightarrow> 'c heap \<Rightarrow> addr \<times> 'c heap" where
  "NewNestedScope parent h =
     (next_addr h,
      h\<lparr>nested := (nested h)(next_addr h \<mapsto> (parent, Map.empty)),
        next_addr := Suc (next_addr h)\<rparr>)"

definition NewFutureScope :: "Vars \<Rightarrow> 'c heap \<Rightarrow> addr \<times> 'c heap" where
  "NewFutureScope vars h =
     (next_addr h,
      h\<lparr>fscopes := (fscopes h)(next_addr h \<mapsto> (vars, Map.empty)),
        next_addr := Suc (next_addr h)\<rparr>)"

definition NestedScope_Set :: "addr \<Rightarrow> string \<Rightarrow> val \<Rightarrow> 'c heap \<Rightarrow> 'c heap" where
  "NestedScope_Set a k v h =
     h\<lparr>nested := (nested h)(a := map_option (\<lambda>(p, vs). (p, vs(k \<mapsto> v))) (nested h a))\<rparr>"

definition NestedScope_SetAll :: "addr \<Rightarrow> Vars \<Rightarrow> 'c heap \<Rightarrow> 'c heap" where
  "NestedScope_SetAll a sm h =
     h\<lparr>nested := (nested h)(a := map_option (\<lambda>(p, vs). (p, vs ++ sm)) (nested h a))\<rparr>"

definition FutureScope_Set :: "addr option \<Rightarrow> string \<Rightarrow> val \<Rightarrow> 'c heap \<Rightarrow> 'c heap outcome" where
  "FutureScope_Set fs k v h =
     (case fs of
        None \<Rightarrow> Panic
      | Some a \<Rightarrow>
          Return (h\<lparr>fscopes :=
            (fscopes h)(a := map_option (\<lambda>(vs, fut). (vs(k \<mapsto> v), fut)) (fscopes h a))\<rparr>))"

definition AddFuture :: "addr option \<Rightarrow> string \<Rightarrow> 'c future \<Rightarrow> 'c heap \<Rightarrow> 'c heap outcome" where
  "AddFuture fs k f h =
     (case fs of
        None \<Rightarrow> Panic
      | Some a \<Rightarrow>
          Return (h\<lparr>fscopes :=
            (fscopes h)(a := map_option (\<lambda>(vs, fut). (vs, fut(k \<mapsto> f))) (fscopes h a))\<rparr>))"

section \<open>runner.go: the runner and its surroundings\<close>

text \<open>The calls made on the Reporter, in the order they are made.\<close>

datatype 'c event =
    StartTasks | FinishTasks | StartHandlers | FinishHandlers
  | StartTask Task "'c command" string string
  | FinishTask Task "'c command" "result option"

text \<open>\<open>RunResult{task, res, runtime}\<close>; the Result pointer may be nil.\<close>

datatype RunResult = RunResult Task "result option" int

text \<open>
  The state a run works on. \<open>plays\<close>, \<open>to_notify\<close> (a Go map used as a set), \<open>Results\<close>,
  \<open>Start\<close> and \<open>Runtime\<close> are the fields of Runner; \<open>report\<close> is the list of calls the
  Reporter has received; \<open>launched\<close> lists the asynchronous actions that were initialised
  and handed to a goroutine; \<open>heap\<close> holds the scopes; \<open>world\<close> is everything outside
  the program that commands read and change.
\<close>

record ('c, 'w) Runner =
  plays :: "Play list"
  to_notify :: "string set"
  Results :: "RunResult list"
  Start :: int
  Runtime :: int
  report :: "'c event list"
  launched :: "(Task \<times> 'c command \<times> string) list"
  heap :: "'c heap"
  world :: "'w"

text \<open>
  What the runner calls outside the source files: the template expansion, the
  construction of a builtin command, the parsing of module arguments, the run of a builtin
  command (it may fail, return a nil Result, panic, and change the world), and the clock.
  The last three fields stand for what the background goroutines have done when the
  controlling thread asks: the results of the futures resolved so far, and the state after
  waiting for the futures of a scope or for the asynchronous actions.
\<close>

record ('c, 'w) extern =
  ExpandVars :: "'c heap \<Rightarrow> scope \<Rightarrow> string \<Rightarrow> error + string"
  MakeCommand :: "'c heap \<Rightarrow> scope \<Rightarrow> Task \<Rightarrow> string \<Rightarrow> error + 'c"
  ParseSimpleMap :: "'c heap \<Rightarrow> scope \<Rightarrow> string \<Rightarrow> error + Vars"
  Builtin_Run :: "'c \<Rightarrow> Task \<Rightarrow> string \<Rightarrow> 'w \<Rightarrow> ((result option \<times> error option) \<times> 'w) outcome"
  Now :: "'w \<Rightarrow> int"
  FutureScope_Results :: "addr \<Rightarrow> ('c, 'w) Runner \<Rightarrow> RunResult list"
  FutureScope_Wait :: "addr \<Rightarrow> ('c, 'w) Runner \<Rightarrow> ('c, 'w) Runner"
  wait_Wait :: "('c, 'w) Runner \<Rightarrow> ('c, 'w) Runner"

definition AddNotify :: "string \<Rightarrow> ('c, 'w) Runner \<Rightarrow> ('c, 'w) Runner" where
  "AddNotify n r = r\<lparr>to_notify := insert n (to_notify r)\<rparr>"


definition boolify :: "string \<Rightarrow> bool" where
  "boolify str = (if str = [] \<or> str = ''false'' \<or> str = ''no'' then False else True)"

text \<open>
  The statements after \<open>cmd.Run\<close> in \<open>runTaskItems\<close> (lines 221 to 241) and, the same
  again, in \<open>runTask\<close> (lines 320 to 340): bind the returned Result under the Register name
  in \<open>fs\<close>; take the elapsed time; on an error put a failed Result in its place; append
  to the history; report; on no error add the Notify names.
\<close>

definition record_run ::
  "('c, 'w) extern \<Rightarrow> Task \<Rightarrow> 'c command \<Rightarrow> addr option \<Rightarrow> int \<Rightarrow>
   result option \<times> error option \<Rightarrow> ('c, 'w) Runner \<Rightarrow> ('c, 'w) Runner outcome" where
  "record_run E task cmd fs start res_err r =
     (case res_err of (res, err) \<Rightarrow>
        (case (if Register task \<noteq> []
               then FutureScope_Set fs (Register task) (VResult res) (heap r)
               else Return (heap r)) of
           Panic \<Rightarrow> Panic
         | Return h \<Rightarrow>
             (let runtime = Now E (world r) - start;
                  res = (case err of
                           None \<Rightarrow> res
                         | Some e \<Rightarrow>
                             Some (Add (Add (NewResult False) ''failed'' (VBool True))
                                     ''error'' (VStr (Error e))));
                  r = r\<lparr>heap := h,
                        Results := Results r @ [RunResult task res runtime],
                        report := report r @ [FinishTask task cmd res]\<rparr>
              in Return (case err of
                           None \<Rightarrow> fold AddNotify (Notify task) r
                         | Some e \<Rightarrow> r))))"

text \<open>
  One turn of the loop of \<open>runTaskItems\<close>, and the loop. An error of the expansion or of
  \<open>MakeCommand\<close> is returned together with the state reached; the command of an item is
  always made by \<open>MakeCommand\<close>.
\<close>

definition runTaskItem ::
  "('c, 'w) extern \<Rightarrow> Play \<Rightarrow> Task \<Rightarrow> scope \<Rightarrow> addr option \<Rightarrow> int \<Rightarrow> val \<Rightarrow>
   ('c, 'w) Runner \<Rightarrow> (error option \<times> ('c, 'w) Runner) outcome" where
  "runTaskItem E play task s fs start item r =
     (case NewNestedScope s (heap r) of (a, h) \<Rightarrow>
        (let ns = NestedRef a;
             h = NestedScope_Set a ''item'' item h;
             r = r\<lparr>heap := h\<rparr>
         in case ExpandVars E h ns (Name task) of
              Inl err \<Rightarrow> Return (Some err, r)
            | Inr name \<Rightarrow>
           (case ExpandVars E h ns (Args task) of
              Inl err \<Rightarrow> Return (Some err, r)
            | Inr str \<Rightarrow>
           (case MakeCommand E h ns task str of
              Inl err \<Rightarrow> Return (Some err, r)
            | Inr c \<Rightarrow>
           (let r = r\<lparr>report := report r @ [StartTask task (Builtin c) name str]\<rparr>
            in case Builtin_Run E c task str (world r) of
                 Panic \<Rightarrow> Panic
               | Return (res_err, w) \<Rightarrow>
                   (case record_run E task (Builtin c) fs start res_err (r\<lparr>world := w\<rparr>) of
                      Panic \<Rightarrow> Panic
                    | Return r \<Rightarrow> Return (None, r)))))))"

fun runTaskItems ::
  "('c, 'w) extern \<Rightarrow> Play \<Rightarrow> Task \<Rightarrow> scope \<Rightarrow> addr option \<Rightarrow> int \<Rightarrow> val list \<Rightarrow>
   ('c, 'w) Runner \<Rightarrow> (error option \<times> ('c, 'w) Runner) outcome" where
  "runTaskItems E play task s fs start [] r = Return (None, r)"
| "runTaskItems E play task s fs start (item # items) r =
     (case runTaskItem E play task s fs start item r of
        Panic \<Rightarrow> Panic
      | Return (Some err, r) \<Rightarrow> Return (Some err, r)
      | Return (None, r) \<Rightarrow> runTaskItems E play task s fs start items r)"

text \<open>
  \<open>runTask\<close> and \<open>ModuleRun.Run\<close> call each other, and a module whose task names the
  module itself never returns. The first argument bounds the depth of module calls: the
  value is \<open>None\<close> when the bound is reached, \<open>Some\<close> of what the Go function does
  otherwise. \<open>Run\<close> is the method \<open>Run\<close> of the interface Command: the run of a
  builtin, or \<open>ModuleRun.Run\<close>. \<open>ModuleRun_Run\<close> is the loop of \<open>ModuleRun.Run\<close> over
  the module tasks still to run, with the fields of the ModuleRun it reads; the
  FutureScope of a ModuleRun built by \<open>runTask\<close> is nil, as the composite literal gives
  the field no value. The error \<open>runTask\<close> returns for a module task is dropped.

  In \<open>runTask\<close>, the \<open>err\<close> returned on the last line is the variable declared with the
  expansion of the name: every non-nil value of it has been returned before, and the
  synchronous branch declares its own \<open>res, err\<close>, so the last line returns nil.
\<close>

fun runTask ::
    "nat \<Rightarrow> ('c, 'w) extern \<Rightarrow> Play \<Rightarrow> Task \<Rightarrow> scope \<Rightarrow> addr option \<Rightarrow>
     ('c, 'w) Runner \<Rightarrow> (error option \<times> ('c, 'w) Runner) outcome option"
  and Run ::
    "nat \<Rightarrow> ('c, 'w) extern \<Rightarrow> 'c command \<Rightarrow> Task \<Rightarrow> string \<Rightarrow>
     ('c, 'w) Runner \<Rightarrow> ((result option \<times> error option) \<times> ('c, 'w) Runner) outcome option"
  and ModuleRun_Run ::
    "nat \<Rightarrow> ('c, 'w) extern \<Rightarrow> Play \<Rightarrow> Task list \<Rightarrow> scope \<Rightarrow> addr option \<Rightarrow> string \<Rightarrow>
     ('c, 'w) Runner \<Rightarrow> ((result option \<times> error option) \<times> ('c, 'w) Runner) outcome option"
  where
  "runTask n E play task s fs r =
     (let ps = PriorityScope (IncludeVars task) s;
          start = Now E (world r)
      in case (if When task \<noteq> []
               then (case ExpandVars E (heap r) ps (When task) of
                       Inl err \<Rightarrow> Inl (Some err)
                     | Inr when \<Rightarrow> if \<not> boolify when then Inl None else Inr ())
               else Inr ()) of
           Inl ret \<Rightarrow> Some (Return (ret, r))
         | Inr _ \<Rightarrow>
        (case Items task of
           Some items \<Rightarrow> Some (runTaskItems E play task s fs start items r)
         | None \<Rightarrow>
        (case ExpandVars E (heap r) ps (Name task) of
           Inl err \<Rightarrow> Some (Return (Some err, r))
         | Inr name \<Rightarrow>
        (case ExpandVars E (heap r) ps (Args task) of
           Inl err \<Rightarrow> Some (Return (Some err, r))
         | Inr str \<Rightarrow>
        (case (case Modules play (Command task) of
                 Some module \<Rightarrow> Inr (ModuleRun play task module s None)
               | None \<Rightarrow>
                   (case MakeCommand E (heap r) ps task str of
                      Inl err \<Rightarrow> Inl err
                    | Inr c \<Rightarrow> Inr (Builtin c))) of
           Inl err \<Rightarrow> Some (Return (Some err, r))
         | Inr cmd \<Rightarrow>
        (let r = r\<lparr>report := report r @ [StartTask task cmd name str]\<rparr>
         in if Future task \<noteq> [] then
              (case AddFuture fs (Future task) (NewFuture start task cmd str) (heap r) of
                 Panic \<Rightarrow> Some Panic
               | Return h \<Rightarrow> Some (Return (None, r\<lparr>heap := h\<rparr>)))
            else if Async task then
              Some (Return (None, r\<lparr>launched := launched r @ [(task, cmd, str)]\<rparr>))
            else
              (case Run n E cmd task str r of
                 None \<Rightarrow> None
               | Some Panic \<Rightarrow> Some Panic
               | Some (Return (res_err, r)) \<Rightarrow>
                   (case record_run E task cmd fs start res_err r of
                      Panic \<Rightarrow> Some Panic
                    | Return r \<Rightarrow> Some (Return (None, r))))))))))"
| "Run n E (Builtin c) task str r =
     (case Builtin_Run E c task str (world r) of
        Panic \<Rightarrow> Some Panic
      | Return (res_err, w) \<Rightarrow> Some (Return (res_err, r\<lparr>world := w\<rparr>)))"
| "Run 0 E (ModuleRun m_play m_task m_module m_scope m_fs) task str r = None"
| "Run (Suc n) E (ModuleRun m_play m_task m_module m_scope m_fs) task str r =
     ModuleRun_Run n E m_play (ModTasks m_module) m_scope m_fs str r"
| "ModuleRun_Run n E play [] scope mfs args r =
     Some (Return ((Some (NewResult True), None), r))"
| "ModuleRun_Run n E play (task # tasks) scope mfs args r =
     (case NewNestedScope scope (heap r) of (a, h) \<Rightarrow>
        (case ParseSimpleMap E h (NestedRef a) args of
           Inl err \<Rightarrow> Some (Return ((None, Some err), r\<lparr>heap := h\<rparr>))
         | Inr sm \<Rightarrow>
             (case runTask n E play task (NestedRef a) mfs
                     (r\<lparr>heap := NestedScope_SetAll a sm h\<rparr>) of
                None \<Rightarrow> None
              | Some Panic \<Rightarrow> Some Panic
              | Some (Return (err, r)) \<Rightarrow> ModuleRun_Run n E play tasks scope mfs args r)))"

declare runTask.simps [simp del]

text \<open>
  \<open>Runner.Run\<close>. The loops of the first phase (lines 69 to 80): every play gets a new
  FutureScope, which is both the scope and the future scope of its tasks; the first error
  ends the run. The loops of the second phase (lines 88 to 102): a handler is run when
  \<open>ShouldRunHandler\<close> holds for its name at the moment the loop reaches it.
\<close>

fun runTasks ::
  "nat \<Rightarrow> ('c, 'w) extern \<Rightarrow> Play \<Rightarrow> addr \<Rightarrow> Task list \<Rightarrow> ('c, 'w) Runner \<Rightarrow>
   (error option \<times> ('c, 'w) Runner) outcome option" where
  "runTasks n E play fs [] r = Some (Return (None, r))"
| "runTasks n E play fs (task # tasks) r =
     (case runTask n E play task (FutureRef fs) (Some fs) r of
        None \<Rightarrow> None
      | Some Panic \<Rightarrow> Some Panic
      | Some (Return (Some err, r)) \<Rightarrow> Some (Return (Some err, r))
      | Some (Return (None, r)) \<Rightarrow> runTasks n E play fs tasks r)"





text \<open>\<open>NewRunner\<close>: no name notified, no result, nothing reported or launched.\<close>

definition NewRunner :: "Play list \<Rightarrow> 'c heap \<Rightarrow> 'w \<Rightarrow> ('c, 'w) Runner" where
  "NewRunner ps h w =
     \<lparr>plays = ps, to_notify = {}, Results = [], Start = 0, Runtime = 0, report = [],
      launched = [], heap = h, world = w\<rparr>"

section \<open>A small world to run the model in\<close>

text \<open>
  Externals for concrete runs. A template expands to itself, except \<open>{{item}}\<close>, which
  expands to the string bound to \<open>item\<close> in the local frame of a nested scope, and
  \<open>{{bad}}\<close>, which fails. A builtin command is its name and its argument text; the
  command \<open>fail\<close> returns an error and a nil Result, \<open>same\<close> an unchanged Result, every
  other a changed Result; each run takes one unit of time. Module arguments parse to no
  variables, except \<open>bad\<close>, which fails. No goroutine does anything.
\<close>

definition ex_ExpandVars :: "'c heap \<Rightarrow> scope \<Rightarrow> string \<Rightarrow> error + string" where
  "ex_ExpandVars h s t =
     (if t = ''{{bad}}'' then Inl (OtherError ''undefined: bad'')
      else if t = ''{{item}}'' then
        (case s of
           NestedRef a \<Rightarrow>
             (case nested h a of
                Some (p, vs) \<Rightarrow>
                  (case vs ''item'' of
                     Some (VStr x) \<Rightarrow> Inr x
                   | _ \<Rightarrow> Inl (OtherError ''undefined: item''))
              | None \<Rightarrow> Inl (OtherError ''undefined: item''))
         | _ \<Rightarrow> Inl (OtherError ''undefined: item''))
      else Inr t)"

definition ex_Run ::
  "string \<times> string \<Rightarrow> Task \<Rightarrow> string \<Rightarrow> nat \<Rightarrow> ((result option \<times> error option) \<times> nat) outcome" where
  "ex_Run c task str w =
     (if fst c = ''fail'' then Return ((None, Some (OtherError ''boom'')), Suc w)
      else if fst c = ''same'' then Return ((Some (NewResult False), None), Suc w)
      else Return ((Some (NewResult True), None), Suc w))"

definition ex :: "(string \<times> string, nat) extern" where
  "ex =
     \<lparr>ExpandVars = ex_ExpandVars,
      MakeCommand = (\<lambda>h s task str. Inr (Command task, str)),
      ParseSimpleMap =
        (\<lambda>h s args. if args = ''bad'' then Inl (OtherError ''bad arguments'') else Inr Map.empty),
      Builtin_Run = ex_Run,
      Now = int,
      FutureScope_Results = (\<lambda>fs r. []),
      FutureScope_Wait = (\<lambda>fs r. r),
      wait_Wait = (\<lambda>r. r)\<rparr>"

definition ex_task :: "string \<Rightarrow> string \<Rightarrow> string \<Rightarrow> Task" where
  "ex_task name cmd args =
     \<lparr>Name = name, Command = cmd, Args = args, When = [], Items = None, Register = [],
      Notify = [], Async = False, Future = [], IncludeVars = None\<rparr>"

definition ex_play :: "Task list \<Rightarrow> Task list \<Rightarrow> Play" where
  "ex_play ts hs = \<lparr>Vars = Map.empty, Tasks = ts, Handlers = hs, Modules = Map.empty\<rparr>"

definition ex_heap :: "(string \<times> string) heap" where
  "ex_heap = \<lparr>nested = Map.empty, fscopes = Map.empty, next_addr = 0\<rparr>"


section \<open>Conditions on a task, for the statements below\<close>

text \<open>
  The When clause of a task lets it run: there is no When text, or the text expands
  without error to a string that \<open>boolify\<close> takes as true.
\<close>

definition passes_When :: "('c, 'w) extern \<Rightarrow> Task \<Rightarrow> scope \<Rightarrow> ('c, 'w) Runner \<Rightarrow> bool" where
  "passes_When E task s r =
     (if When task = [] then True
      else (case ExpandVars E (heap r) (PriorityScope (IncludeVars task) s) (When task) of
              Inl err \<Rightarrow> False
            | Inr when \<Rightarrow> boolify when))"

text \<open>
  What \<open>runTask\<close> arrives at for a task without items when nothing fails: the expanded
  name, the expanded argument text and the command, a \<open>ModuleRun\<close> when the play has a
  module of the task's command name, a builtin otherwise.
\<close>

definition resolves ::
  "('c, 'w) extern \<Rightarrow> Play \<Rightarrow> Task \<Rightarrow> scope \<Rightarrow> ('c, 'w) Runner \<Rightarrow> (string \<times> string \<times> 'c command) option" where
  "resolves E play task s r =
     (let ps = PriorityScope (IncludeVars task) s
      in case ExpandVars E (heap r) ps (Name task) of
           Inl err \<Rightarrow> None
         | Inr name \<Rightarrow>
        (case ExpandVars E (heap r) ps (Args task) of
           Inl err \<Rightarrow> None
         | Inr str \<Rightarrow>
        (case Modules play (Command task) of
           Some module \<Rightarrow> Some (name, str, ModuleRun play task module s None)
         | None \<Rightarrow>
             (case MakeCommand E (heap r) ps task str of
                Inl err \<Rightarrow> None
              | Inr c \<Rightarrow> Some (name, str, Builtin c)))))"

text \<open>
  The same for one turn of the item loop: \<open>child_heap\<close> is the heap after the child scope
  has been made and \<open>item\<close> bound in it; the child has the address that was next.
\<close>

definition child_heap :: "scope \<Rightarrow> val \<Rightarrow> 'c heap \<Rightarrow> 'c heap" where
  "child_heap s item h = NestedScope_Set (next_addr h) ''item'' item (snd (NewNestedScope s h))"

definition resolves_item ::
  "('c, 'w) extern \<Rightarrow> Task \<Rightarrow> scope \<Rightarrow> ('c, 'w) Runner \<Rightarrow> val \<Rightarrow> (string \<times> string \<times> 'c) option" where
  "resolves_item E task s r item =
     (let h = child_heap s item (heap r);
          ns = NestedRef (next_addr (heap r))
      in case ExpandVars E h ns (Name task) of
           Inl err \<Rightarrow> None
         | Inr name \<Rightarrow>
        (case ExpandVars E h ns (Args task) of
           Inl err \<Rightarrow> None
         | Inr str \<Rightarrow>
        (case MakeCommand E h ns task str of
           Inl err \<Rightarrow> None
         | Inr c \<Rightarrow> Some (name, str, c))))"

text \<open>The Result the runner puts in place of a command's Result when it returned an error.\<close>

definition failed_Result :: "error \<Rightarrow> result" where
  "failed_Result e = Result False [(''failed'', VBool True), (''error'', VStr (Error e))]"



section \<open>Properties of the builtin commands\<close>





text \<open>
  Claim C8. For the process \<open>RunCommand\<close> starts: when both pipes could be made, a child
  that exits with status zero gives a CommandResult with ReturnCode 0, a child that exits
  with any other status, or is ended by a signal, one with ReturnCode 1, both with the
  captured output; a command that never started gives the error and no CommandResult, and
  so does a pipe that could not be made. The same holds for \<open>RunCommandInEnv\<close>.
\<close>

theorem RunCommand_return_code:
  "(let p = sys \<lparr>cmd_Path = path, cmd_Args = args, cmd_Env = None\<rparr>;
        got = RunCommand sys (path # args)
    in (StdoutPipe_err p = None \<longrightarrow> StderrPipe_err p = None \<longrightarrow>
          (case ended p of
             Exited code \<Rightarrow>
               got = Return (Inr \<lparr>ReturnCode = (if code = 0 then 0 else 1),
                                  Stdout = bout p, Stderr = berr p\<rparr>)
           | Signaled \<Rightarrow>
               got = Return (Inr \<lparr>ReturnCode = 1, Stdout = bout p, Stderr = berr p\<rparr>)
           | NotStarted \<Rightarrow> got = Return (Inl (OtherError ''exec: not started'')))) \<and>
       (\<forall>msg. StdoutPipe_err p = Some (OtherError msg) \<longrightarrow>
          got = Return (Inl (OtherError msg))) \<and>
       (\<forall>msg. StdoutPipe_err p = None \<longrightarrow> StderrPipe_err p = Some (OtherError msg) \<longrightarrow>
          got = Return (Inl (OtherError msg)))) \<and>
   (let p = sys \<lparr>cmd_Path = path, cmd_Args = args, cmd_Env = Some unixEnv\<rparr>;
        got = RunCommandInEnv sys unixEnv (path # args)
    in (StdoutPipe_err p = None \<longrightarrow> StderrPipe_err p = None \<longrightarrow>
          (case ended p of
             Exited code \<Rightarrow>
               got = Return (Inr \<lparr>ReturnCode = (if code = 0 then 0 else 1),
                                  Stdout = bout p, Stderr = berr p\<rparr>)
           | Signaled \<Rightarrow>
               got = Return (Inr \<lparr>ReturnCode = 1, Stdout = bout p, Stderr = berr p\<rparr>)
           | NotStarted \<Rightarrow> got = Return (Inl (OtherError ''exec: not started'')))) \<and>
       (\<forall>msg. StdoutPipe_err p = Some (OtherError msg) \<longrightarrow>
          got = Return (Inl (OtherError msg))) \<and>
       (\<forall>msg. StdoutPipe_err p = None \<longrightarrow> StderrPipe_err p = Some (OtherError msg) \<longrightarrow>
          got = Return (Inl (OtherError msg))))"
  by (auto simp: RunCommand_def RunCommandInEnv_def captureCmd_def Let_def
      split: proc_end.splits)

text \<open>The theorem at a child that exits with status 3.\<close>

theorem RunCommand_return_code_witness:
  "RunCommand (\<lambda>c. \<lparr>StdoutPipe_err = None, StderrPipe_err = None, bout = [], berr = ''no'',
       ended = Exited 3\<rparr>) [''false''] =
     Return (Inr \<lparr>ReturnCode = 1, Stdout = [], Stderr = ''no''\<rparr>)"
  using RunCommand_return_code [of "\<lambda>c. \<lparr>StdoutPipe_err = None, StderrPipe_err = None, bout = [],
       berr = ''no'', ended = Exited 3\<rparr>" "''false''" "[]"]
  by (simp add: Let_def)

section \<open>Properties of the runner\<close>

lemma fold_AddNotify: "fold AddNotify xs r = r\<lparr>to_notify := to_notify r \<union> set xs\<rparr>"
  by (induction xs arbitrary: r) (simp_all add: AddNotify_def)

lemma record_run_error:
  assumes "Register task = [] \<or> fs \<noteq> None"
  shows "\<exists>h. record_run E task cmd fs start (res, Some e) r =
     Return (r\<lparr>heap := h,
               Results := Results r @ [RunResult task (Some (failed_Result e)) (Now E (world r) - start)],
               report := report r @ [FinishTask task cmd (Some (failed_Result e))]\<rparr>) \<and>
     nested h = nested (heap r) \<and> next_addr h = next_addr (heap r) \<and>
     (Register task = [] \<longrightarrow> h = heap r) \<and>
     (\<forall>a. Register task \<noteq> [] \<longrightarrow> fs = Some a \<longrightarrow>
        fscopes h = (fscopes (heap r))(a := map_option (\<lambda>(vs, fut). (vs(Register task \<mapsto> VResult res), fut)) (fscopes (heap r) a)))"
  using assms
  by (auto simp: record_run_def FutureScope_Set_def failed_Result_def NewResult_def Add_def Let_def
      split: option.splits)


lemma passes_When_Inr:
  assumes "passes_When E task s r"
  shows "(if When task \<noteq> []
          then (case ExpandVars E (heap r) (PriorityScope (IncludeVars task) s) (When task) of
                  Inl err \<Rightarrow> Inl (Some err)
                | Inr when \<Rightarrow> if \<not> boolify when then Inl None else Inr ())
          else Inr ()) = Inr ()"
  using assms by (auto simp: passes_When_def split: sum.splits if_splits)

lemma resolvesD:
  assumes "resolves E play task s r = Some (name, str, cmd)"
  shows "ExpandVars E (heap r) (PriorityScope (IncludeVars task) s) (Name task) = Inr name"
    and "ExpandVars E (heap r) (PriorityScope (IncludeVars task) s) (Args task) = Inr str"
    and "(case Modules play (Command task) of
            Some module \<Rightarrow> Inr (ModuleRun play task module s None)
          | None \<Rightarrow>
              (case MakeCommand E (heap r) (PriorityScope (IncludeVars task) s) task str of
                 Inl err \<Rightarrow> Inl err
               | Inr c \<Rightarrow> Inr (Builtin c))) = Inr cmd"
  using assms by (auto simp: resolves_def Let_def split: sum.splits option.splits)



lemma runTask_items:
  assumes "passes_When E task s r" and "Items task = Some items"
  shows "runTask n E play task s fs r =
           Some (runTaskItems E play task s fs (Now E (world r)) items r)"
  unfolding runTask.simps [of n E play task s fs r] Let_def passes_When_Inr [OF assms(1)]
  using assms(2) by simp

lemma runTask_dispatch:
  assumes "passes_When E task s r" and "Items task = None"
    and "resolves E play task s r = Some (name, str, cmd)"
  shows "runTask n E play task s fs r =
     (let r1 = r\<lparr>report := report r @ [StartTask task cmd name str]\<rparr>
      in if Future task \<noteq> [] then
           (case AddFuture fs (Future task) (NewFuture (Now E (world r)) task cmd str) (heap r) of
              Panic \<Rightarrow> Some Panic
            | Return h \<Rightarrow> Some (Return (None, r1\<lparr>heap := h\<rparr>)))
         else if Async task then
           Some (Return (None, r1\<lparr>launched := launched r @ [(task, cmd, str)]\<rparr>))
         else
           (case Run n E cmd task str r1 of
              None \<Rightarrow> None
            | Some Panic \<Rightarrow> Some Panic
            | Some (Return (res_err, r2)) \<Rightarrow>
                (case record_run E task cmd fs (Now E (world r)) res_err r2 of
                   Panic \<Rightarrow> Some Panic
                 | Return r3 \<Rightarrow> Some (Return (None, r3)))))"
  using assms(2) passes_When_Inr [OF assms(1)] resolvesD [OF assms(3)]
  by (simp add: runTask.simps [of n E play task s fs r] Let_def)

lemma child_heap_simps:
  "nested (child_heap s item h) = (nested h)(next_addr h \<mapsto> (s, [''item'' \<mapsto> item]))"
  "fscopes (child_heap s item h) = fscopes h"
  "next_addr (child_heap s item h) = Suc (next_addr h)"
  by (simp_all add: child_heap_def NewNestedScope_def NestedScope_Set_def)

lemma NewNestedScope_case:
  "(case NewNestedScope s h of (a, h') \<Rightarrow> f a h') = f (next_addr h) (snd (NewNestedScope s h))"
  by (simp add: NewNestedScope_def)

lemma resolves_itemD:
  assumes "resolves_item E task s r item = Some (name, str, c)"
  shows "ExpandVars E (child_heap s item (heap r)) (NestedRef (next_addr (heap r))) (Name task) = Inr name"
    and "ExpandVars E (child_heap s item (heap r)) (NestedRef (next_addr (heap r))) (Args task) = Inr str"
    and "MakeCommand E (child_heap s item (heap r)) (NestedRef (next_addr (heap r))) task str = Inr c"
  using assms by (auto simp: resolves_item_def Let_def split: sum.splits)

lemma runTaskItem_run:
  assumes "resolves_item E task s r item = Some (name, str, c)"
  shows "runTaskItem E play task s fs start item r =
     (case Builtin_Run E c task str (world r) of
        Panic \<Rightarrow> Panic
      | Return (res_err, w) \<Rightarrow>
          (case record_run E task (Builtin c) fs start res_err
                  (r\<lparr>heap := child_heap s item (heap r),
                     report := report r @ [StartTask task (Builtin c) name str],
                     world := w\<rparr>) of
             Panic \<Rightarrow> Panic
           | Return r' \<Rightarrow> Return (None, r')))"
  using resolves_itemD [OF assms]
  by (simp add: runTaskItem_def NewNestedScope_case child_heap_def [symmetric] Let_def)

lemma runTaskItem_error:
  assumes "resolves_item E task s r item = None"
  shows "\<exists>err. runTaskItem E play task s fs start item r =
           Return (Some err, r\<lparr>heap := child_heap s item (heap r)\<rparr>)"
  using assms
  by (auto simp: runTaskItem_def resolves_item_def NewNestedScope_case child_heap_def [symmetric]
      Let_def split: sum.splits)





lemmas ex_defs = ex_def ex_ExpandVars_def ex_Run_def ex_task_def ex_play_def ex_heap_def
  NewRunner_def NewFutureScope_def NewResult_def





lemma record_run_Return:
  assumes "record_run E task cmd fs start res_err r = Return r'"
  shows "\<exists>res. Results r' = Results r @ [RunResult task res (Now E (world r) - start)] \<and>
           report r' = report r @ [FinishTask task cmd res]"
    and "launched r' = launched r"
    and "world r' = world r"
    and "plays r' = plays r"
    and "to_notify r \<subseteq> to_notify r'"
    and "nested (heap r') = nested (heap r)"
    and "next_addr (heap r') = next_addr (heap r)"
    and "map_option snd (fscopes (heap r') a) = map_option snd (fscopes (heap r) a)"
  using assms
  by (auto simp: record_run_def FutureScope_Set_def fold_AddNotify Let_def
      option.map_comp o_def split_beta
      split: prod.splits option.splits if_splits outcome.splits)

lemma record_run_total:
  assumes "Register task = [] \<or> fs \<noteq> None"
  shows "\<exists>r'. record_run E task cmd fs start res_err r = Return r'"
  using assms
  by (auto simp: record_run_def FutureScope_Set_def Let_def split: prod.splits option.splits)

lemma runTaskItem_keeps:
  assumes "runTaskItem E play task s fs start item r = Return (e, r')"
  shows "launched r' = launched r"
    and "map_option snd (fscopes (heap r') a) = map_option snd (fscopes (heap r) a)"
proof -
  have "launched r' = launched r \<and>
        map_option snd (fscopes (heap r') a) = map_option snd (fscopes (heap r) a)"
  proof (cases "resolves_item E task s r item")
    case None
    then show ?thesis
      using assms runTaskItem_error [OF None, where play = play and fs = fs and start = start]
      by (auto simp: child_heap_simps)
  next
    case (Some t)
    obtain name str c where t: "t = (name, str, c)" by (cases t)
    show ?thesis
    proof (cases "Builtin_Run E c task str (world r)")
      case Panic
      then show ?thesis
        using assms Some t by (simp add: runTaskItem_run)
    next
      case (Return x)
      obtain res_err w where x: "x = (res_err, w)" by (cases x)
      let ?r1 = "r\<lparr>heap := child_heap s item (heap r),
                   report := report r @ [StartTask task (Builtin c) name str], world := w\<rparr>"
      from assms Some t Return x
      have "record_run E task (Builtin c) fs start res_err ?r1 = Return r'"
        by (simp add: runTaskItem_run split: outcome.splits)
      from record_run_Return(2) [OF this] record_run_Return(8) [OF this, of a]
      show ?thesis
        by (simp add: child_heap_simps)
    qed
  qed
  then show "launched r' = launched r"
    and "map_option snd (fscopes (heap r') a) = map_option snd (fscopes (heap r) a)"
    by simp_all
qed

lemma runTaskItems_keeps:
  assumes "runTaskItems E play task s fs start items r = Return (e, r')"
  shows "launched r' = launched r \<and>
         (\<forall>a. map_option snd (fscopes (heap r') a) = map_option snd (fscopes (heap r) a))"
  using assms
proof (induction items arbitrary: r)
  case Nil
  then show ?case by simp
next
  case (Cons item items)
  show ?case
  proof (cases "runTaskItem E play task s fs start item r")
    case Panic
    with Cons.prems show ?thesis by simp
  next
    case (Return x)
    obtain e1 r1 where x: "x = (e1, r1)" by (cases x)
    have k: "launched r1 = launched r"
      "\<And>a. map_option snd (fscopes (heap r1) a) = map_option snd (fscopes (heap r) a)"
      using runTaskItem_keeps [of E play task s fs start item r e1 r1] Return x by simp_all
    show ?thesis
    proof (cases e1)
      case None
      with Cons.prems Return x
      have "runTaskItems E play task s fs start items r1 = Return (e, r')" by simp
      from Cons.IH [OF this] k show ?thesis by simp
    next
      case (Some err)
      with Cons.prems Return x have "r' = r1" by simp
      with k show ?thesis by simp
    qed
  qed
qed


text \<open>
  Claim C4. A task whose When clause lets it run and for which nothing fails takes one of
  four paths, told apart by what they leave behind. With Items set, \<open>runTask\<close> is the item
  loop, which registers no future and launches no asynchronous action, whatever the
  Future name and the Async flag are. Without Items and with a Future name, the future is
  registered in the FutureScope under that name and nothing else changes but the report of
  the start: nothing is launched, whatever the Async flag is, and no Result is recorded
  (a nil FutureScope panics). Without a Future name and with the Async flag, the action
  is launched and nothing else changes. Otherwise the command is run before \<open>runTask\<close>
  returns: for a builtin command one Result is recorded, no future is registered and
  nothing is launched.
\<close>

theorem dispatch_paths:
  assumes "passes_When E task s r"
  shows "(\<forall>items. Items task = Some items \<longrightarrow>
            runTask n E play task s fs r =
              Some (runTaskItems E play task s fs (Now E (world r)) items r) \<and>
            (\<forall>e r'. runTaskItems E play task s fs (Now E (world r)) items r = Return (e, r') \<longrightarrow>
               launched r' = launched r \<and>
               (\<forall>a. map_option snd (fscopes (heap r') a) = map_option snd (fscopes (heap r) a)))) \<and>
         (Items task = None \<longrightarrow> resolves E play task s r = Some (name, str, cmd) \<longrightarrow>
            (Future task \<noteq> [] \<longrightarrow>
               (case fs of
                  None \<Rightarrow> runTask n E play task s fs r = Some Panic
                | Some a \<Rightarrow>
                    runTask n E play task s fs r =
                      Some (Return (None,
                        r\<lparr>report := report r @ [StartTask task cmd name str],
                          heap := (heap r)\<lparr>fscopes := (fscopes (heap r))
                            (a := map_option
                               (\<lambda>(vs, fut).
                                  (vs, fut(Future task \<mapsto> NewFuture (Now E (world r)) task cmd str)))
                               (fscopes (heap r) a))\<rparr>\<rparr>)))) \<and>
            (Future task = [] \<longrightarrow> Async task \<longrightarrow>
               runTask n E play task s fs r =
                 Some (Return (None,
                   r\<lparr>report := report r @ [StartTask task cmd name str],
                     launched := launched r @ [(task, cmd, str)]\<rparr>))) \<and>
            (Future task = [] \<longrightarrow> \<not> Async task \<longrightarrow>
               (\<forall>c res_err w. cmd = Builtin c \<longrightarrow>
                  Builtin_Run E c task str (world r) = Return (res_err, w) \<longrightarrow>
                  (Register task = [] \<or> fs \<noteq> None) \<longrightarrow>
                  (\<exists>r'. runTask n E play task s fs r = Some (Return (None, r')) \<and>
                     length (Results r') = Suc (length (Results r)) \<and>
                     launched r' = launched r \<and>
                     (\<forall>a. map_option snd (fscopes (heap r') a) =
                          map_option snd (fscopes (heap r) a))))))"
proof (intro conjI allI impI)
  fix items
  assume "Items task = Some items"
  then show "runTask n E play task s fs r =
      Some (runTaskItems E play task s fs (Now E (world r)) items r)"
    by (rule runTask_items [OF assms])
next
  fix items e r' a
  assume "runTaskItems E play task s fs (Now E (world r)) items r = Return (e, r')"
  from runTaskItems_keeps [OF this]
  show "launched r' = launched r"
    and "map_option snd (fscopes (heap r') a) = map_option snd (fscopes (heap r) a)"
    by simp_all
next
  assume h: "Items task = None" "resolves E play task s r = Some (name, str, cmd)"
    "Future task \<noteq> []"
  show "case fs of
          None \<Rightarrow> runTask n E play task s fs r = Some Panic
        | Some a \<Rightarrow>
            runTask n E play task s fs r =
              Some (Return (None,
                r\<lparr>report := report r @ [StartTask task cmd name str],
                  heap := (heap r)\<lparr>fscopes := (fscopes (heap r))
                    (a := map_option
                       (\<lambda>(vs, fut).
                          (vs, fut(Future task \<mapsto> NewFuture (Now E (world r)) task cmd str)))
                       (fscopes (heap r) a))\<rparr>\<rparr>))"
    using h(3) by (simp add: runTask_dispatch [OF assms h(1,2)] AddFuture_def split: option.splits)
next
  assume h: "Items task = None" "resolves E play task s r = Some (name, str, cmd)"
    "Future task = []" "Async task"
  show "runTask n E play task s fs r =
      Some (Return (None,
        r\<lparr>report := report r @ [StartTask task cmd name str],
          launched := launched r @ [(task, cmd, str)]\<rparr>))"
    using h(3,4) by (simp add: runTask_dispatch [OF assms h(1,2)])
next
  fix c res_err w
  assume h: "Items task = None" "resolves E play task s r = Some (name, str, cmd)"
    "Future task = []" "\<not> Async task" "cmd = Builtin c"
    "Builtin_Run E c task str (world r) = Return (res_err, w)"
    "Register task = [] \<or> fs \<noteq> None"
  let ?r1 = "r\<lparr>report := report r @ [StartTask task cmd name str], world := w\<rparr>"
  have "\<exists>r'. record_run E task cmd fs (Now E (world r)) res_err ?r1 = Return r'"
    by (rule record_run_total [OF h(7)])
  then obtain r' where rr: "record_run E task cmd fs (Now E (world r)) res_err ?r1 = Return r'" ..
  have rt: "runTask n E play task s fs r = Some (Return (None, r'))"
    using h(3-6) rr by (simp add: runTask_dispatch [OF assms h(1,2)])
  have "length (Results r') = Suc (length (Results r))" "launched r' = launched r"
    "\<And>a. map_option snd (fscopes (heap r') a) = map_option snd (fscopes (heap r) a)"
    using record_run_Return(1) [OF rr] record_run_Return(2) [OF rr] record_run_Return(8) [OF rr]
    by auto
  with rt show "\<exists>r'. runTask n E play task s fs r = Some (Return (None, r')) \<and>
      length (Results r') = Suc (length (Results r)) \<and>
      launched r' = launched r \<and>
      (\<forall>a. map_option snd (fscopes (heap r') a) = map_option snd (fscopes (heap r) a))"
    by blast
qed

text \<open>
  The theorem at a task with Items, a Future name and the Async flag: the two items are
  run one after the other, nothing is launched and no future is registered.
\<close>

theorem dispatch_paths_witness:
  "runTask 0 ex (ex_play [] [])
     ((ex_task ''{{item}}'' ''ok'' ''a'')
        \<lparr>Items := Some [VStr ''x'', VStr ''y''], Future := ''f'', Async := True\<rparr>)
     (FutureRef 0) (Some 0) (NewRunner [] (snd (NewFutureScope Map.empty ex_heap)) 0) =
   Some (runTaskItems ex (ex_play [] [])
     ((ex_task ''{{item}}'' ''ok'' ''a'')
        \<lparr>Items := Some [VStr ''x'', VStr ''y''], Future := ''f'', Async := True\<rparr>)
     (FutureRef 0) (Some 0) 0 [VStr ''x'', VStr ''y'']
     (NewRunner [] (snd (NewFutureScope Map.empty ex_heap)) 0))"
  using dispatch_paths [where E = ex and s = "FutureRef 0" and fs = "Some 0" and n = 0
      and play = "ex_play [] []"
      and r = "NewRunner [] (snd (NewFutureScope Map.empty ex_heap)) 0"
      and task = "(ex_task ''{{item}}'' ''ok'' ''a'')
        \<lparr>Items := Some [VStr ''x'', VStr ''y''], Future := ''f'', Async := True\<rparr>",
      THEN conjunct1, THEN spec, where x = "[VStr ''x'', VStr ''y'']"]
  by (simp add: ex_defs passes_When_def)


text \<open>
  Claim C10. With a Register name and a FutureScope at address \<open>a\<close>, when the command
  returns an error together with a Result \<open>res\<close> (nil or not): what is bound under the
  Register name is \<open>res\<close> itself, while the history gets the failed Result made by the
  runner; the binding is in the frame of the FutureScope, and no nested scope changes. In
  the item loop the child scope of the item holds \<open>item\<close> and nothing else.
\<close>

theorem register_binds_raw_result:
  assumes "Register task \<noteq> []"
  shows "(passes_When E task s r \<longrightarrow> Items task = None \<longrightarrow>
          resolves E play task s r = Some (name, str, cmd) \<longrightarrow>
          Future task = [] \<longrightarrow> \<not> Async task \<longrightarrow>
          Run n E cmd task str (r\<lparr>report := report r @ [StartTask task cmd name str]\<rparr>) =
            Some (Return ((res, Some e), r2)) \<longrightarrow>
          fscopes (heap r2) a = Some (vs, futs) \<longrightarrow>
          (\<exists>r'. runTask n E play task s (Some a) r = Some (Return (None, r')) \<and>
             fscopes (heap r') a = Some (vs(Register task \<mapsto> VResult res), futs) \<and>
             nested (heap r') = nested (heap r2) \<and>
             Results r' = Results r2 @
               [RunResult task
                  (Some (Result False [(''failed'', VBool True), (''error'', VStr (Error e))]))
                  (Now E (world r2) - Now E (world r))])) \<and>
         (resolves_item E task s r item = Some (iname, istr, c) \<longrightarrow>
          Builtin_Run E c task istr (world r) = Return ((res, Some e), w) \<longrightarrow>
          fscopes (heap r) a = Some (vs, futs) \<longrightarrow>
          (\<exists>r'. runTaskItem E play task s (Some a) start item r = Return (None, r') \<and>
             fscopes (heap r') a = Some (vs(Register task \<mapsto> VResult res), futs) \<and>
             nested (heap r') = (nested (heap r))(next_addr (heap r) \<mapsto> (s, [''item'' \<mapsto> item])) \<and>
             Results r' = Results r @
               [RunResult task
                  (Some (Result False [(''failed'', VBool True), (''error'', VStr (Error e))]))
                  (Now E w - start)]))"
proof (intro conjI impI)
  assume h: "passes_When E task s r" "Items task = None"
    "resolves E play task s r = Some (name, str, cmd)" "Future task = []" "\<not> Async task"
    "Run n E cmd task str (r\<lparr>report := report r @ [StartTask task cmd name str]\<rparr>) =
       Some (Return ((res, Some e), r2))"
    "fscopes (heap r2) a = Some (vs, futs)"
  have ok: "Register task = [] \<or> Some a \<noteq> None" by simp
  obtain h' where rr: "record_run E task cmd (Some a) (Now E (world r)) (res, Some e) r2 =
     Return (r2\<lparr>heap := h',
               Results := Results r2 @ [RunResult task (Some (failed_Result e)) (Now E (world r2) - Now E (world r))],
               report := report r2 @ [FinishTask task cmd (Some (failed_Result e))]\<rparr>)"
    and hp: "nested h' = nested (heap r2)"
      "fscopes h' = (fscopes (heap r2))(a := map_option (\<lambda>(vs, fut). (vs(Register task \<mapsto> VResult res), fut)) (fscopes (heap r2) a))"
    using record_run_error [OF ok, where E = E and cmd = cmd
        and start = "Now E (world r)" and res = res and e = e and r = r2] assms by auto
  show "\<exists>r'. runTask n E play task s (Some a) r = Some (Return (None, r')) \<and>
             fscopes (heap r') a = Some (vs(Register task \<mapsto> VResult res), futs) \<and>
             nested (heap r') = nested (heap r2) \<and>
             Results r' = Results r2 @
               [RunResult task
                  (Some (Result False [(''failed'', VBool True), (''error'', VStr (Error e))]))
                  (Now E (world r2) - Now E (world r))]"
    using h(4-7) rr hp by (simp add: runTask_dispatch [OF h(1-3)] failed_Result_def)
next
  assume h: "resolves_item E task s r item = Some (iname, istr, c)"
    "Builtin_Run E c task istr (world r) = Return ((res, Some e), w)"
    "fscopes (heap r) a = Some (vs, futs)"
  let ?r1 = "r\<lparr>heap := child_heap s item (heap r),
               report := report r @ [StartTask task (Builtin c) iname istr], world := w\<rparr>"
  have ok: "Register task = [] \<or> Some a \<noteq> None" by simp
  obtain h' where rr: "record_run E task (Builtin c) (Some a) start (res, Some e) ?r1 =
     Return (?r1\<lparr>heap := h',
               Results := Results ?r1 @ [RunResult task (Some (failed_Result e)) (Now E (world ?r1) - start)],
               report := report ?r1 @ [FinishTask task (Builtin c) (Some (failed_Result e))]\<rparr>)"
    and hp: "nested h' = nested (heap ?r1)"
      "fscopes h' = (fscopes (heap ?r1))(a := map_option (\<lambda>(vs, fut). (vs(Register task \<mapsto> VResult res), fut)) (fscopes (heap ?r1) a))"
    using record_run_error [OF ok, where E = E and cmd = "Builtin c"
        and start = start and res = res and e = e and r = ?r1] assms by auto
  show "\<exists>r'. runTaskItem E play task s (Some a) start item r = Return (None, r') \<and>
             fscopes (heap r') a = Some (vs(Register task \<mapsto> VResult res), futs) \<and>
             nested (heap r') = (nested (heap r))(next_addr (heap r) \<mapsto> (s, [''item'' \<mapsto> item])) \<and>
             Results r' = Results r @
               [RunResult task
                  (Some (Result False [(''failed'', VBool True), (''error'', VStr (Error e))]))
                  (Now E w - start)]"
    using h(2,3) rr hp
    by (simp add: runTaskItem_run [OF h(1)] failed_Result_def child_heap_simps)
qed

text \<open>
  The theorem at a task that registers its result as \<open>out\<close> and whose command fails with a
  nil Result: \<open>out\<close> is bound to the nil Result in the FutureScope at address 0.
\<close>

theorem register_binds_raw_result_witness:
  "\<exists>r'. runTask 0 ex (ex_play [] []) ((ex_task ''t'' ''fail'' ''x'')\<lparr>Register := ''out''\<rparr>)
          (FutureRef 0) (Some 0) (NewRunner [] (snd (NewFutureScope Map.empty ex_heap)) 0) =
            Some (Return (None, r')) \<and>
        fscopes (heap r') 0 = Some ([''out'' \<mapsto> VResult None], Map.empty) \<and>
        Results r' =
          [RunResult ((ex_task ''t'' ''fail'' ''x'')\<lparr>Register := ''out''\<rparr>)
             (Some (Result False [(''failed'', VBool True), (''error'', VStr ''boom'')])) 1]"
proof -
  let ?task = "(ex_task ''t'' ''fail'' ''x'')\<lparr>Register := ''out''\<rparr>"
  let ?r = "NewRunner [] (snd (NewFutureScope Map.empty ex_heap)) 0 :: (string \<times> string, nat) Runner"
  let ?r2 = "?r\<lparr>report := [StartTask ?task (Builtin (''fail'', ''x'')) ''t'' ''x''], world := 1\<rparr>"
  have "\<exists>r'. runTask 0 ex (ex_play [] []) ?task (FutureRef 0) (Some 0) ?r = Some (Return (None, r')) \<and>
          fscopes (heap r') 0 = Some ((Map.empty :: Vars)(Register ?task \<mapsto> VResult None), Map.empty) \<and>
          nested (heap r') = nested (heap ?r2) \<and>
          Results r' = Results ?r2 @
            [RunResult ?task
               (Some (Result False [(''failed'', VBool True), (''error'', VStr (Error (OtherError ''boom'')))]))
               (Now ex (world ?r2) - Now ex (world ?r))]"
    using register_binds_raw_result [where task = ?task and E = ex and s = "FutureRef 0"
        and r = ?r and play = "ex_play [] []" and name = "''t''" and str = "''x''"
        and cmd = "Builtin (''fail'', ''x'')" and n = 0 and res = None and e = "OtherError ''boom''"
        and ?r2.0 = ?r2 and a = 0 and vs = Map.empty and futs = Map.empty, THEN conjunct1]
    by (auto simp: ex_defs passes_When_def resolves_def)
  then show ?thesis
    by (auto simp: ex_defs)
qed

lemma runTaskItems_append:
  "runTaskItems E play task s fs start (pre @ post) r =
     (case runTaskItems E play task s fs start pre r of
        Panic \<Rightarrow> Panic
      | Return (Some err, r1) \<Rightarrow> Return (Some err, r1)
      | Return (None, r1) \<Rightarrow> runTaskItems E play task s fs start post r1)"
  by (induction pre arbitrary: r) (auto split: outcome.splits option.splits)

lemma runTaskItem_NoneD:
  assumes "runTaskItem E play task s fs start item r = Return (None, r2)"
  shows "\<exists>name str c res_err w res.
           resolves_item E task s r item = Some (name, str, c) \<and>
           Builtin_Run E c task str (world r) = Return (res_err, w) \<and>
           report r2 = report r @ [StartTask task (Builtin c) name str,
                                   FinishTask task (Builtin c) res] \<and>
           Results r2 = Results r @ [RunResult task res (Now E w - start)] \<and>
           next_addr (heap r2) = Suc (next_addr (heap r))"
proof (cases "resolves_item E task s r item")
  case None
  then show ?thesis
    using assms runTaskItem_error [OF None, where play = play and fs = fs and start = start]
    by auto
next
  case (Some t)
  obtain name str c where t: "t = (name, str, c)" by (cases t)
  show ?thesis
  proof (cases "Builtin_Run E c task str (world r)")
    case Panic
    then show ?thesis
      using assms Some t by (simp add: runTaskItem_run)
  next
    case (Return x)
    obtain res_err w where x: "x = (res_err, w)" by (cases x)
    let ?r1 = "r\<lparr>heap := child_heap s item (heap r),
                 report := report r @ [StartTask task (Builtin c) name str], world := w\<rparr>"
    from assms Some t Return x
    have rr: "record_run E task (Builtin c) fs start res_err ?r1 = Return r2"
      by (simp add: runTaskItem_run split: outcome.splits)
    from record_run_Return(1) [OF rr] record_run_Return(7) [OF rr]
    show ?thesis
      using Some t Return x by (auto simp: child_heap_simps)
  qed
qed

lemma runTaskItems_count:
  assumes "runTaskItems E play task s fs start items r = Return (None, r')"
  shows "length (Results r') = length (Results r) + length items \<and>
         next_addr (heap r') = next_addr (heap r) + length items"
  using assms
proof (induction items arbitrary: r)
  case Nil
  then show ?case by simp
next
  case (Cons item items)
  from Cons.prems obtain r1 where
    r1: "runTaskItem E play task s fs start item r = Return (None, r1)"
    and rest: "runTaskItems E play task s fs start items r1 = Return (None, r')"
    by (auto split: outcome.splits option.splits)
  from runTaskItem_NoneD [OF r1] Cons.IH [OF rest]
  show ?case by auto
qed

text \<open>
  Claim C5. When the item loop of a task returns without error, the history has grown by
  one entry for each item and one scope has been allocated for each item. For every item
  of the list: the items before it have been run to the end first; then a child scope of
  \<open>s\<close> is made at an address not used before, with \<open>item\<close> bound to this item and nothing
  else in its frame; the name and the argument text of the task are expanded in that
  child scope and the command is made from them; the start is reported, the command is
  run, and its result is recorded and reported; only then the items after it are run. In
  the loop over the tasks of a play, the next task starts from the state the item loop
  returned.
\<close>

theorem item_loop:
  assumes "runTaskItems E play task s fs start items r = Return (None, r')"
  shows "length (Results r') = length (Results r) + length items \<and>
    next_addr (heap r') = next_addr (heap r) + length items \<and>
    (\<forall>pre item post. items = pre @ item # post \<longrightarrow>
       (\<exists>r1 r2 name str c res_err w res.
          runTaskItems E play task s fs start pre r = Return (None, r1) \<and>
          length (Results r1) = length (Results r) + length pre \<and>
          next_addr (heap r1) = next_addr (heap r) + length pre \<and>
          nested (child_heap s item (heap r1)) (next_addr (heap r1)) =
            Some (s, [''item'' \<mapsto> item]) \<and>
          ExpandVars E (child_heap s item (heap r1)) (NestedRef (next_addr (heap r1)))
            (Name task) = Inr name \<and>
          ExpandVars E (child_heap s item (heap r1)) (NestedRef (next_addr (heap r1)))
            (Args task) = Inr str \<and>
          MakeCommand E (child_heap s item (heap r1)) (NestedRef (next_addr (heap r1)))
            task str = Inr c \<and>
          Builtin_Run E c task str (world r1) = Return (res_err, w) \<and>
          runTaskItem E play task s fs start item r1 = Return (None, r2) \<and>
          report r2 = report r1 @ [StartTask task (Builtin c) name str,
                                   FinishTask task (Builtin c) res] \<and>
          Results r2 = Results r1 @ [RunResult task res (Now E w - start)] \<and>
          runTaskItems E play task s fs start post r2 = Return (None, r'))) \<and>
    (\<forall>n a rest. s = FutureRef a \<longrightarrow> fs = Some a \<longrightarrow> passes_When E task s r \<longrightarrow>
       Items task = Some items \<longrightarrow> start = Now E (world r) \<longrightarrow>
       runTasks n E play a (task # rest) r = runTasks n E play a rest r')"
proof (intro conjI allI impI)
  show "length (Results r') = length (Results r) + length items"
    and "next_addr (heap r') = next_addr (heap r) + length items"
    using runTaskItems_count [OF assms] by simp_all
next
  fix pre item post
  assume items: "items = pre @ item # post"
  from assms obtain r1 where
    pre: "runTaskItems E play task s fs start pre r = Return (None, r1)"
    and tl: "runTaskItems E play task s fs start (item # post) r1 = Return (None, r')"
    unfolding items runTaskItems_append [of E play task s fs start pre "item # post" r]
    by (auto split: outcome.splits option.splits)
  from tl obtain r2 where
    it: "runTaskItem E play task s fs start item r1 = Return (None, r2)"
    and post: "runTaskItems E play task s fs start post r2 = Return (None, r')"
    by (auto split: outcome.splits option.splits)
  from runTaskItem_NoneD [OF it] obtain name str c res_err w res where
    d: "resolves_item E task s r1 item = Some (name, str, c)"
      "Builtin_Run E c task str (world r1) = Return (res_err, w)"
      "report r2 = report r1 @ [StartTask task (Builtin c) name str,
                                FinishTask task (Builtin c) res]"
      "Results r2 = Results r1 @ [RunResult task res (Now E w - start)]"
    by blast
  show "\<exists>r1 r2 name str c res_err w res.
          runTaskItems E play task s fs start pre r = Return (None, r1) \<and>
          length (Results r1) = length (Results r) + length pre \<and>
          next_addr (heap r1) = next_addr (heap r) + length pre \<and>
          nested (child_heap s item (heap r1)) (next_addr (heap r1)) =
            Some (s, [''item'' \<mapsto> item]) \<and>
          ExpandVars E (child_heap s item (heap r1)) (NestedRef (next_addr (heap r1)))
            (Name task) = Inr name \<and>
          ExpandVars E (child_heap s item (heap r1)) (NestedRef (next_addr (heap r1)))
            (Args task) = Inr str \<and>
          MakeCommand E (child_heap s item (heap r1)) (NestedRef (next_addr (heap r1)))
            task str = Inr c \<and>
          Builtin_Run E c task str (world r1) = Return (res_err, w) \<and>
          runTaskItem E play task s fs start item r1 = Return (None, r2) \<and>
          report r2 = report r1 @ [StartTask task (Builtin c) name str,
                                   FinishTask task (Builtin c) res] \<and>
          Results r2 = Results r1 @ [RunResult task res (Now E w - start)] \<and>
          runTaskItems E play task s fs start post r2 = Return (None, r')"
    using pre runTaskItems_count [OF pre] resolves_itemD [OF d(1)] d(2-4) it post
    by (intro exI [of _ r1] exI [of _ r2] exI [of _ name] exI [of _ str] exI [of _ c]
        exI [of _ res_err] exI [of _ w] exI [of _ res]) (simp add: child_heap_simps)
next
  fix n a rest
  assume "s = FutureRef a" "fs = Some a" "passes_When E task s r" "Items task = Some items"
    "start = Now E (world r)"
  then show "runTasks n E play a (task # rest) r = runTasks n E play a rest r'"
    using assms runTask_items [of E task s r items n play fs] by simp
qed

text \<open>
  The theorem at a task with the items \<open>x\<close> and \<open>y\<close> whose name is the template
  \<open>{{item}}\<close>: two Results, and the two names reported are \<open>x\<close> and \<open>y\<close>.
\<close>

theorem item_loop_witness:
  "\<exists>r'. runTaskItems ex (ex_play [] [])
          ((ex_task ''{{item}}'' ''ok'' ''a'')\<lparr>Items := Some [VStr ''x'', VStr ''y'']\<rparr>)
          (FutureRef 0) (Some 0) 0 [VStr ''x'', VStr ''y'']
          (NewRunner [] (snd (NewFutureScope Map.empty ex_heap)) 0) = Return (None, r') \<and>
        length (Results r') = 2 \<and> next_addr (heap r') = 3 \<and>
        report r' =
          [StartTask ((ex_task ''{{item}}'' ''ok'' ''a'')\<lparr>Items := Some [VStr ''x'', VStr ''y'']\<rparr>)
             (Builtin (''ok'', ''a'')) ''x'' ''a'',
           FinishTask ((ex_task ''{{item}}'' ''ok'' ''a'')\<lparr>Items := Some [VStr ''x'', VStr ''y'']\<rparr>)
             (Builtin (''ok'', ''a'')) (Some (Result True [])),
           StartTask ((ex_task ''{{item}}'' ''ok'' ''a'')\<lparr>Items := Some [VStr ''x'', VStr ''y'']\<rparr>)
             (Builtin (''ok'', ''a'')) ''y'' ''a'',
           FinishTask ((ex_task ''{{item}}'' ''ok'' ''a'')\<lparr>Items := Some [VStr ''x'', VStr ''y'']\<rparr>)
             (Builtin (''ok'', ''a'')) (Some (Result True []))]"
proof -
  let ?task = "(ex_task ''{{item}}'' ''ok'' ''a'')\<lparr>Items := Some [VStr ''x'', VStr ''y'']\<rparr>"
  let ?r = "NewRunner [] (snd (NewFutureScope Map.empty ex_heap)) 0 :: (string \<times> string, nat) Runner"
  obtain r' where run: "runTaskItems ex (ex_play [] []) ?task (FutureRef 0) (Some 0) 0
      [VStr ''x'', VStr ''y''] ?r = Return (None, r')"
    and rep: "report r' =
          [StartTask ?task (Builtin (''ok'', ''a'')) ''x'' ''a'',
           FinishTask ?task (Builtin (''ok'', ''a'')) (Some (Result True [])),
           StartTask ?task (Builtin (''ok'', ''a'')) ''y'' ''a'',
           FinishTask ?task (Builtin (''ok'', ''a'')) (Some (Result True []))]"
    by (simp add: runTaskItem_def record_run_def NestedScope_Set_def NewNestedScope_def
        ex_defs Let_def)
  from item_loop [OF run] have "length (Results r') = length (Results ?r) + 2"
    "next_addr (heap r') = next_addr (heap ?r) + 2"
    by simp_all
  with run rep show ?thesis
    by (simp add: ex_defs)
qed














end
